theory Spec2Isabelle
  imports Main
begin

section \<open>Qt value types used by the helper\<close>

text \<open>
  The helper is written against Qt. The value types below follow Qt's own representation:
  a \<open>QRect\<close> stores its two corners (\<open>x2 = x1 + width - 1\<close>), a \<open>QSize\<close> is empty
  when one side is below 1, a \<open>QRegion\<close> is a set of pixels, given here by its membership test.
  A coordinate is a C++ \<open>int\<close> of 32 bits, given by its value. Sums and differences of
  points, and sizes with margins added or removed, can leave that range, and the compiled
  code then wraps around: \<open>int32\<close> is the value of a 32-bit result.
\<close>

datatype QPoint = QPoint (xp: int) (yp: int)

datatype QSize = QSize (wd: int) (ht: int)

datatype QRect = QRect (x1: int) (y1: int) (x2: int) (y2: int)

definition int32 :: "int \<Rightarrow> int" where
  "int32 x = (x + 2147483648) mod 4294967296 - 2147483648"

definition QPoint_plus :: "QPoint \<Rightarrow> QPoint \<Rightarrow> QPoint" where
  "QPoint_plus a b = QPoint (int32 (xp a + xp b)) (int32 (yp a + yp b))"

definition QPoint_minus :: "QPoint \<Rightarrow> QPoint \<Rightarrow> QPoint" where
  "QPoint_minus a b = QPoint (int32 (xp a - xp b)) (int32 (yp a - yp b))"

definition QSize_isEmpty :: "QSize \<Rightarrow> bool" where
  "QSize_isEmpty s = (wd s < 1 \<or> ht s < 1)"

text \<open>\<open>shrunkBy\<close> and \<open>grownBy\<close> for the margins \<open>QMargins{l, t, r, b}\<close>.\<close>

definition shrunkBy :: "QSize \<Rightarrow> int \<times> int \<times> int \<times> int \<Rightarrow> QSize" where
  "shrunkBy s m =
     (case m of (l, t, r, b) \<Rightarrow> QSize (int32 (wd s - l - r)) (int32 (ht s - t - b)))"

definition grownBy :: "QSize \<Rightarrow> int \<times> int \<times> int \<times> int \<Rightarrow> QSize" where
  "grownBy s m =
     (case m of (l, t, r, b) \<Rightarrow> QSize (int32 (wd s + l + r)) (int32 (ht s + t + b)))"

definition boundedTo :: "QSize \<Rightarrow> QSize \<Rightarrow> QSize" where
  "boundedTo s other = QSize (min (wd s) (wd other)) (min (ht s) (ht other))"

definition expandedTo :: "QSize \<Rightarrow> QSize \<Rightarrow> QSize" where
  "expandedTo s other = QSize (max (wd s) (wd other)) (max (ht s) (ht other))"

text \<open>\<open>QRect()\<close>, the default-constructed (null) rectangle, and \<open>QRect(topLeft, size)\<close>.\<close>

definition QRect_default :: QRect where
  "QRect_default = QRect 0 0 (- 1) (- 1)"

definition QRect_of :: "QPoint \<Rightarrow> QSize \<Rightarrow> QRect" where
  "QRect_of topLeft sz = QRect (xp topLeft) (yp topLeft)
     (xp topLeft + wd sz - 1) (yp topLeft + ht sz - 1)"

definition QRect_isNull :: "QRect \<Rightarrow> bool" where
  "QRect_isNull r = (x2 r = x1 r - 1 \<and> y2 r = y1 r - 1)"

definition QRect_isEmpty :: "QRect \<Rightarrow> bool" where
  "QRect_isEmpty r = (x1 r > x2 r \<or> y1 r > y2 r)"

definition QRect_isValid :: "QRect \<Rightarrow> bool" where
  "QRect_isValid r = (x1 r \<le> x2 r \<and> y1 r \<le> y2 r)"

text \<open>
  \<open>QRect::contains(QPoint)\<close> and \<open>QRect::intersects(QRect)\<close>, with Qt's normalisation of
  rectangles of negative extent.
\<close>

definition QRect_contains :: "QRect \<Rightarrow> QPoint \<Rightarrow> bool" where
  "QRect_contains r p =
     (let l = (if x2 r < x1 r - 1 then x2 r else x1 r);
          rr = (if x2 r < x1 r - 1 then x1 r else x2 r);
          t = (if y2 r < y1 r - 1 then y2 r else y1 r);
          b = (if y2 r < y1 r - 1 then y1 r else y2 r)
      in \<not> (xp p < l \<or> xp p > rr) \<and> \<not> (yp p < t \<or> yp p > b))"

definition QRect_intersects :: "QRect \<Rightarrow> QRect \<Rightarrow> bool" where
  "QRect_intersects a r =
     (if QRect_isNull a \<or> QRect_isNull r then False
      else
        let l1 = (if x2 a - x1 a + 1 < 0 then x2 a else x1 a);
            r1 = (if x2 a - x1 a + 1 < 0 then x1 a else x2 a);
            l2 = (if x2 r - x1 r + 1 < 0 then x2 r else x1 r);
            r2 = (if x2 r - x1 r + 1 < 0 then x1 r else x2 r);
            t1 = (if y2 a - y1 a + 1 < 0 then y2 a else y1 a);
            b1 = (if y2 a - y1 a + 1 < 0 then y1 a else y2 a);
            t2 = (if y2 r - y1 r + 1 < 0 then y2 r else y1 r);
            b2 = (if y2 r - y1 r + 1 < 0 then y1 r else y2 r)
        in if l1 > r2 \<or> l2 > r1 then False
           else if t1 > b2 \<or> t2 > b1 then False
           else True)"

text \<open>
  A \<open>QRegion\<close> is a set of pixels. \<open>QRegion(QRect)\<close> is the empty region for an empty
  rectangle and the rectangle's pixels otherwise; \<open>operator-=\<close> removes the pixels of its
  argument; \<open>contains\<close> is membership.
\<close>

type_synonym QRegion = "QPoint \<Rightarrow> bool"

definition QRegion_of :: "QRect \<Rightarrow> QRegion" where
  "QRegion_of r = (\<lambda>p. \<not> QRect_isEmpty r \<and>
      x1 r \<le> xp p \<and> xp p \<le> x2 r \<and> y1 r \<le> yp p \<and> yp p \<le> y2 r)"

definition QRegion_subtracted :: "QRegion \<Rightarrow> QRegion \<Rightarrow> QRegion" where
  "QRegion_subtracted region other = (\<lambda>p. region p \<and> \<not> other p)"

definition QRegion_contains :: "QRegion \<Rightarrow> QPoint \<Rightarrow> bool" where
  "QRegion_contains region p = region p"

datatype QVariant = Invalid | BoolValue bool | IntValue int | StringValue string

definition QVariant_isValid :: "QVariant \<Rightarrow> bool" where
  "QVariant_isValid v = (v \<noteq> Invalid)"

datatype Policy = Fixed | Minimum | Maximum | Preferred | Expanding | MinimumExpanding | Ignored

datatype WindowState =
  WindowNoState | WindowMinimized | WindowMaximized | WindowFullScreen | WindowActive

datatype WindowType = MSWindowsFixedSizeDialogHint | FramelessWindowHint | WindowStaysOnTopHint

datatype WidgetAttribute = WA_DontCreateNativeAncestors | WA_NativeWindow | WA_Hover

datatype SystemButtonType = Unknown | WindowIcon | Help | Minimize | Maximize | Restore | Close

datatype ButtonState = Normal | Hovered | Pressed | Released

text \<open>
  A \<open>QFlags\<close> value is the set of the flags that are on; \<open>flags & other\<close>, read as a
  condition, says that they share a flag.
\<close>

definition QFlags_and :: "'a set \<Rightarrow> 'a set \<Rightarrow> bool" where
  "QFlags_and flags other = (flags \<inter> other \<noteq> {})"

section \<open>Widgets, the per-window table and the helper object\<close>

type_synonym WId = nat
type_synonym widget_ref = nat
type_synonym helper_ref = nat

text \<open>
  A \<open>QPointer<QWidget>\<close> is the address it was given, or nothing. It reads as null once the
  widget is destroyed, so it is always read through the widget store (\<open>QPointer_data\<close> below).
\<close>

type_synonym QPointer = "widget_ref option"

text \<open>
  What the helper observes of a \<open>QWidget\<close>. The flags of \<open>windowFlags()\<close>,
  \<open>windowState()\<close> and the widget attributes are sets of the flags that are on.
  \<open>w_mapToWindow\<close> is \<open>mapTo(m_window, QPoint(0, 0))\<close>, \<open>w_mapToGlobal\<close> is
  \<open>mapToGlobal(QPoint(0, 0))\<close>, \<open>w_window\<close> is \<open>window()\<close>, and \<open>w_helpers\<close> is
  \<open>findChildren<FramelessWidgetsHelper *>()\<close>. \<open>geometry()\<close> is read only on system
  buttons, which are child widgets: it is the rectangle of \<open>pos()\<close> and \<open>size()\<close>.
\<close>

record QWidget =
  w_isWindow :: bool
  w_window :: widget_ref
  w_winId :: WId
  w_isVisible :: bool
  w_isEnabled :: bool
  w_pos :: QPoint
  w_size :: QSize
  w_mapToWindow :: QPoint
  w_mapToGlobal :: QPoint
  w_minimumSize :: QSize
  w_maximumSize :: QSize
  w_sizePolicy :: "Policy \<times> Policy"
  w_windowFlags :: "WindowType set"
  w_windowState :: "WindowState set"
  w_attributes :: "WidgetAttribute set"
  w_underMouse :: bool
  w_windowHandle :: bool
  w_property :: "string \<Rightarrow> QVariant"
  w_helpers :: "helper_ref list"

definition geometry :: "QWidget \<Rightarrow> QRect" where
  "geometry w = QRect_of (w_pos w) (w_size w)"

text \<open>
  The callback table filled by \<open>attach()\<close>: every callback is a closure over the window,
  over the helper, or over both, so a table is known by what it is bound to. \<open>{}\<close> is the
  table of empty callbacks.
\<close>

datatype SystemParameters = NoParameters | BoundTo widget_ref helper_ref

record FramelessWidgetsHelperData =
  ready :: bool
  params :: SystemParameters
  titleBarWidget :: QPointer
  hitTestVisibleWidgets :: "QPointer list"
  windowIconButton :: QPointer
  contextHelpButton :: QPointer
  minimizeButton :: QPointer
  maximizeButton :: QPointer
  closeButton :: QPointer
  hitTestVisibleRects :: "QRect list"

definition FramelessWidgetsHelperData_default :: FramelessWidgetsHelperData where
  "FramelessWidgetsHelperData_default =
     \<lparr> ready = False, params = NoParameters, titleBarWidget = None,
       hitTestVisibleWidgets = [], windowIconButton = None, contextHelpButton = None,
       minimizeButton = None, maximizeButton = None, closeButton = None,
       hitTestVisibleRects = [] \<rparr>"

text \<open>
  Calls that leave the helper, in the order they are made: the window registry of
  \<open>FramelessManager\<close>, signals invoked on helper instances, timers, and the calls on widgets
  that a user can see.
\<close>

datatype call =
    AddWindow WId SystemParameters
  | RemoveWindow WId
  | InvokeMethod helper_ref string
  | SingleShot nat
  | Update widget_ref
  | Resize widget_ref QSize
  | Move widget_ref QPoint
  | UpdateInternalWindowFrameMargins widget_ref
  | EmulateQtMouseEvent widget_ref widget_ref ButtonState QPoint QPoint QPoint bool bool

text \<open>
  The process state seen by one \<open>FramelessWidgetsHelperPrivate\<close>: the widgets alive, the
  global table \<open>g_framelessWidgetsHelperData\<close>, the calls made so far, the helper's own
  members (\<open>q_parent\<close> is \<open>q->parent()\<close> when that is a widget; the members are declared
  in the private header, and \<open>m_window\<close> is a guarded pointer), and what the platform
  supplies: the cursor position, whether the build is for Windows, whether the native frame
  border is visible, and the constant \<open>kDefaultResizeBorderThickness\<close> of the core library.
\<close>

record state =
  widgets :: "widget_ref \<rightharpoonup> QWidget"
  g_framelessWidgetsHelperData :: "WId \<rightharpoonup> FramelessWidgetsHelperData"
  calls :: "call list"
  self :: helper_ref
  q_parent :: "widget_ref option"
  m_window :: QPointer
  m_destroying :: bool
  m_qpaReady :: bool
  m_qpaWaitTime :: nat
  cursor_pos :: QPoint
  Q_OS_WINDOWS :: bool
  isWindowFrameBorderVisible :: bool
  kDefaultResizeBorderThickness :: int

definition QPointer_data :: "state \<Rightarrow> QPointer \<Rightarrow> widget_ref option" where
  "QPointer_data st p =
     (case p of None \<Rightarrow> None
      | Some r \<Rightarrow> (case widgets st r of None \<Rightarrow> None | Some w \<Rightarrow> Some r))"

text \<open>The widget behind a \<open>QPointer\<close>, when it is not null.\<close>

definition QPointer_widget :: "state \<Rightarrow> QPointer \<Rightarrow> QWidget option" where
  "QPointer_widget st p = (case p of None \<Rightarrow> None | Some r \<Rightarrow> widgets st r)"

section \<open>Widget operations of Qt\<close>

text \<open>
  \<open>QWidget::update\<close>, \<open>resize\<close> and \<open>move\<close>. Each is recorded as a call; \<open>resize\<close>
  keeps the new size within the minimum and maximum size of the widget, as Qt does.
\<close>

definition update :: "widget_ref \<Rightarrow> state \<Rightarrow> state" where
  "update r st = st\<lparr> calls := calls st @ [Update r] \<rparr>"

definition resize :: "widget_ref \<Rightarrow> QSize \<Rightarrow> state \<Rightarrow> state" where
  "resize r s st =
     (case widgets st r of None \<Rightarrow> st
      | Some w \<Rightarrow>
          st\<lparr> widgets := (widgets st)(r \<mapsto>
                 w\<lparr> w_size := expandedTo (boundedTo s (w_maximumSize w)) (w_minimumSize w) \<rparr>),
              calls := calls st @ [Resize r s] \<rparr>)"

definition move :: "widget_ref \<Rightarrow> QPoint \<Rightarrow> state \<Rightarrow> state" where
  "move r p st =
     (case widgets st r of None \<Rightarrow> st
      | Some w \<Rightarrow>
          st\<lparr> widgets := (widgets st)(r \<mapsto> w\<lparr> w_pos := p \<rparr>),
              calls := calls st @ [Move r p] \<rparr>)"

definition setAttribute :: "widget_ref \<Rightarrow> WidgetAttribute \<Rightarrow> state \<Rightarrow> state" where
  "setAttribute r a st =
     (case widgets st r of None \<Rightarrow> st
      | Some w \<Rightarrow> st\<lparr> widgets := (widgets st)(r \<mapsto>
                        w\<lparr> w_attributes := insert a (w_attributes w) \<rparr>) \<rparr>)"

definition testAttribute :: "state \<Rightarrow> widget_ref \<Rightarrow> WidgetAttribute \<Rightarrow> bool" where
  "testAttribute st r a =
     (case widgets st r of None \<Rightarrow> False | Some w \<Rightarrow> a \<in> w_attributes w)"

section \<open>The repaint forcer\<close>

text \<open>
  \<open>Q_ASSERT\<close> is compiled out throughout (a release build): the code's own null checks
  decide. A raw \<open>QWidget *\<close> argument is \<open>None\<close> for \<open>nullptr\<close>; an address with no widget
  behind it is treated as null.
\<close>

definition isWidgetFixedSize :: "QWidget option \<Rightarrow> bool" where
  "isWidgetFixedSize widget =
     (case widget of None \<Rightarrow> False
      | Some w \<Rightarrow>
          if QFlags_and (w_windowFlags w) {MSWindowsFixedSizeDialogHint} then True
          else
            let minSize = w_minimumSize w; maxSize = w_maximumSize w
            in if \<not> QSize_isEmpty minSize \<and> \<not> QSize_isEmpty maxSize \<and> minSize = maxSize
               then True
               else
                 let sizePolicy = w_sizePolicy w
                 in if fst sizePolicy = Fixed \<and> snd sizePolicy = Fixed then True else False)"

definition pos_of :: "state \<Rightarrow> widget_ref \<Rightarrow> QPoint" where
  "pos_of st r = (case widgets st r of None \<Rightarrow> QPoint 0 0 | Some w \<Rightarrow> w_pos w)"

definition size_of :: "state \<Rightarrow> widget_ref \<Rightarrow> QSize" where
  "size_of st r = (case widgets st r of None \<Rightarrow> QSize (- 1) (- 1) | Some w \<Rightarrow> w_size w)"

definition forceWidgetRepaint :: "widget_ref option \<Rightarrow> state \<Rightarrow> state" where
  "forceWidgetRepaint widget st =
     (case widget of None \<Rightarrow> st
      | Some r \<Rightarrow>
        (case widgets st r of None \<Rightarrow> st
         | Some w \<Rightarrow>
           let st1 = update r st;
               st2 =
                 (if \<not> w_isWindow w \<or>
                     \<not> QFlags_and (w_windowState w)
                          {WindowMinimized, WindowMaximized, WindowFullScreen}
                  then
                    let st1a =
                          (if \<not> isWidgetFixedSize (Some w) then
                             let originalSize = size_of st1 r;
                                 margins = (10, 10, 10, 10)
                             in resize r originalSize
                                  (resize r (grownBy originalSize margins)
                                     (resize r (shrunkBy originalSize margins) st1))
                           else st1);
                        originalPosition = pos_of st1a r;
                        offset = QPoint 10 10
                    in move r originalPosition
                         (move r (QPoint_plus originalPosition offset)
                            (move r (QPoint_minus originalPosition offset) st1a))
                  else st1);
               st3 =
                 (if Q_OS_WINDOWS st2 \<and> w_isWindow w \<and> w_windowHandle w
                  then st2\<lparr> calls := calls st2 @ [UpdateInternalWindowFrameMargins r] \<rparr>
                  else st2)
           in update r st3))"

section \<open>Window lookup and the per-window table\<close>

text \<open>The window the helper is attached to: \<open>m_window\<close> read through the store.\<close>

definition attachedWindow :: "state \<Rightarrow> QWidget option" where
  "attachedWindow st = QPointer_widget st (m_window st)"

text \<open>
  \<open>getWindowData\<close> and \<open>getWindowDataMutable\<close> have one body: nothing when unattached,
  else the window's entry, inserted empty when the table has none. \<open>windowData\<close> is the
  entry they return, \<open>insertWindowData\<close> the table after the call.
\<close>

definition windowData :: "state \<Rightarrow> FramelessWidgetsHelperData option" where
  "windowData st =
     (case attachedWindow st of None \<Rightarrow> None
      | Some w \<Rightarrow>
          (case g_framelessWidgetsHelperData st (w_winId w) of
             None \<Rightarrow> Some FramelessWidgetsHelperData_default
           | Some d \<Rightarrow> Some d))"

definition insertWindowData :: "state \<Rightarrow> state" where
  "insertWindowData st =
     (case attachedWindow st of None \<Rightarrow> st
      | Some w \<Rightarrow>
          (case g_framelessWidgetsHelperData st (w_winId w) of
             None \<Rightarrow> st\<lparr> g_framelessWidgetsHelperData :=
                         (g_framelessWidgetsHelperData st)(w_winId w \<mapsto>
                            FramelessWidgetsHelperData_default) \<rparr>
           | Some d \<Rightarrow> st))"

definition getWindowData :: "state \<Rightarrow> FramelessWidgetsHelperData option \<times> state" where
  "getWindowData st = (windowData st, insertWindowData st)"

definition getWindowDataMutable :: "state \<Rightarrow> FramelessWidgetsHelperData option \<times> state" where
  "getWindowDataMutable st = (windowData st, insertWindowData st)"

text \<open>Writing through the pointer returned by \<open>getWindowDataMutable\<close>.\<close>

definition storeWindowData :: "FramelessWidgetsHelperData \<Rightarrow> state \<Rightarrow> state" where
  "storeWindowData d st =
     (case attachedWindow st of None \<Rightarrow> st
      | Some w \<Rightarrow> st\<lparr> g_framelessWidgetsHelperData :=
                        (g_framelessWidgetsHelperData st)(w_winId w \<mapsto> d) \<rparr>)"

definition findTopLevelWindow :: "state \<Rightarrow> widget_ref option" where
  "findTopLevelWindow st =
     (case q_parent st of None \<Rightarrow> None
      | Some p \<Rightarrow>
          (case widgets st p of None \<Rightarrow> None
           | Some parentWidget \<Rightarrow> QPointer_data st (Some (w_window parentWidget))))"

definition mapWidgetGeometryToScene :: "state \<Rightarrow> QWidget option \<Rightarrow> QRect" where
  "mapWidgetGeometryToScene st widget =
     (case widget of None \<Rightarrow> QRect_default
      | Some w \<Rightarrow>
          (case attachedWindow st of None \<Rightarrow> QRect_default
           | Some win \<Rightarrow> QRect_of (w_mapToWindow w) (w_size w)))"

definition emitSignalForAllInstances :: "string \<Rightarrow> state \<Rightarrow> state" where
  "emitSignalForAllInstances signal st =
     (if signal = [] then st
      else
        (case attachedWindow st of None \<Rightarrow> st
         | Some w \<Rightarrow>
             st\<lparr> calls := calls st @ map (\<lambda>instance. InvokeMethod instance signal) (w_helpers w) \<rparr>))"

definition winId :: "state \<Rightarrow> widget_ref \<Rightarrow> WId" where
  "winId st r = (case widgets st r of None \<Rightarrow> 0 | Some w \<Rightarrow> w_winId w)"

section \<open>Hit testing\<close>


definition subtractWidget :: "state \<Rightarrow> QRegion \<Rightarrow> QPointer \<Rightarrow> QRegion" where
  "subtractWidget st region ptr =
     (case QPointer_widget st ptr of None \<Rightarrow> region
      | Some w \<Rightarrow>
          if w_isVisible w \<and> w_isEnabled w
          then QRegion_subtracted region (QRegion_of (mapWidgetGeometryToScene st (Some w)))
          else region)"

definition subtractRect :: "QRegion \<Rightarrow> QRect \<Rightarrow> QRegion" where
  "subtractRect region rect =
     (if QRect_isValid rect then QRegion_subtracted region (QRegion_of rect) else region)"

definition isInTitleBarDraggableArea :: "state \<Rightarrow> QPoint \<Rightarrow> bool" where
  "isInTitleBarDraggableArea st pos =
     (case fst (getWindowData st) of None \<Rightarrow> False
      | Some data \<Rightarrow>
        (case QPointer_widget st (titleBarWidget data) of None \<Rightarrow> False
         | Some titleBar \<Rightarrow>
           if \<not> w_isVisible titleBar \<or> \<not> w_isEnabled titleBar then False
           else
             (case attachedWindow st of None \<Rightarrow> False
              | Some win \<Rightarrow>
                let windowRect = QRect_of (QPoint 0 0) (w_size win);
                    titleBarRect = mapWidgetGeometryToScene st (Some titleBar)
                in if \<not> QRect_intersects titleBarRect windowRect then False
                   else
                     let region = QRegion_of titleBarRect;
                         systemButtons =
                           [windowIconButton data, contextHelpButton data,
                            minimizeButton data, maximizeButton data, closeButton data];
                         region1 = foldl (subtractWidget st) region systemButtons;
                         region2 =
                           (if hitTestVisibleWidgets data \<noteq> []
                            then foldl (subtractWidget st) region1 (hitTestVisibleWidgets data)
                            else region1);
                         region3 =
                           (if hitTestVisibleRects data \<noteq> []
                            then foldl subtractRect region2 (hitTestVisibleRects data)
                            else region2)
                     in QRegion_contains region3 pos)))"

text \<open>
  Modelled from the spec: \<open>Utils::windowStatesToWindowState\<close> belongs to the core library,
  which is not among the sources. The spec calls a window normal when it is not minimized,
  maximized or fullscreen; the function picks the state a set of state flags stands for.
\<close>

definition windowStatesToWindowState :: "WindowState set \<Rightarrow> WindowState" where
  "windowStatesToWindowState states =
     (if WindowFullScreen \<in> states then WindowFullScreen
      else if WindowMaximized \<in> states then WindowMaximized
      else if WindowMinimized \<in> states then WindowMinimized
      else WindowNoState)"

definition shouldIgnoreMouseEvents :: "state \<Rightarrow> QPoint \<Rightarrow> bool" where
  "shouldIgnoreMouseEvents st pos =
     (case attachedWindow st of None \<Rightarrow> False
      | Some win \<Rightarrow>
        let withinFrameBorder =
              (if yp pos < kDefaultResizeBorderThickness st then True
               else if Q_OS_WINDOWS st \<and> isWindowFrameBorderVisible st then False
               else (xp pos < kDefaultResizeBorderThickness st
                     \<or> xp pos \<ge> wd (w_size win) - kDefaultResizeBorderThickness st))
        in windowStatesToWindowState (w_windowState win) = WindowNoState \<and> withinFrameBorder)"

section \<open>System buttons, properties and hit-test exclusions\<close>

definition updateButtonState :: "ButtonState \<Rightarrow> widget_ref \<Rightarrow> state \<Rightarrow> state" where
  "updateButtonState bstate btn st =
     (case widgets st btn of None \<Rightarrow> st
      | Some b \<Rightarrow>
        (case widgets st (w_window b) of None \<Rightarrow> st
         | Some win \<Rightarrow>
           let globalPos = cursor_pos st;
               localPos = QPoint_minus globalPos (w_mapToGlobal b);
               scenePos = QPoint_minus globalPos (w_mapToGlobal win);
               hoverEnabled = (WA_Hover \<in> w_attributes b)
           in st\<lparr> calls := calls st @
                 [EmulateQtMouseEvent btn (w_window b) bstate globalPos scenePos localPos
                    (w_underMouse b) hoverEnabled] \<rparr>))"

definition setSystemButtonState :: "SystemButtonType \<Rightarrow> ButtonState \<Rightarrow> state \<Rightarrow> state" where
  "setSystemButtonState button bstate st =
     (if button = Unknown then st
      else
        (case getWindowData st of
           (None, st1) \<Rightarrow> st1
         | (Some data, st1) \<Rightarrow>
             let widgetButton =
                   (case button of
                      WindowIcon \<Rightarrow> QPointer_data st1 (windowIconButton data)
                    | Help \<Rightarrow> QPointer_data st1 (contextHelpButton data)
                    | Minimize \<Rightarrow> QPointer_data st1 (minimizeButton data)
                    | Maximize \<Rightarrow> QPointer_data st1 (maximizeButton data)
                    | Restore \<Rightarrow> QPointer_data st1 (maximizeButton data)
                    | Close \<Rightarrow> QPointer_data st1 (closeButton data)
                    | Unknown \<Rightarrow> None)
             in (case widgetButton of None \<Rightarrow> st1
                 | Some btn \<Rightarrow> updateButtonState bstate btn st1)))"

definition setSystemButton :: "widget_ref option \<Rightarrow> SystemButtonType \<Rightarrow> state \<Rightarrow> state" where
  "setSystemButton widget buttonType st =
     (case QPointer_data st widget of None \<Rightarrow> st
      | Some r \<Rightarrow>
        if buttonType = Unknown then st
        else
          (case getWindowDataMutable st of
             (None, st1) \<Rightarrow> st1
           | (Some data, st1) \<Rightarrow>
               (case buttonType of
                  WindowIcon \<Rightarrow> storeWindowData (data\<lparr> windowIconButton := Some r \<rparr>) st1
                | Help \<Rightarrow> storeWindowData (data\<lparr> contextHelpButton := Some r \<rparr>) st1
                | Minimize \<Rightarrow> storeWindowData (data\<lparr> minimizeButton := Some r \<rparr>) st1
                | Maximize \<Rightarrow> storeWindowData (data\<lparr> maximizeButton := Some r \<rparr>) st1
                | Restore \<Rightarrow> storeWindowData (data\<lparr> maximizeButton := Some r \<rparr>) st1
                | Close \<Rightarrow> storeWindowData (data\<lparr> closeButton := Some r \<rparr>) st1
                | Unknown \<Rightarrow> st1)))"

definition setTitleBarWidget :: "widget_ref option \<Rightarrow> state \<Rightarrow> state" where
  "setTitleBarWidget widget st =
     (case QPointer_data st widget of None \<Rightarrow> st
      | Some r \<Rightarrow>
        (case getWindowDataMutable st of
           (None, st1) \<Rightarrow> st1
         | (Some data, st1) \<Rightarrow>
             if QPointer_data st1 (titleBarWidget data) = Some r then st1
             else emitSignalForAllInstances ''titleBarWidgetChanged''
                    (storeWindowData (data\<lparr> titleBarWidget := Some r \<rparr>) st1)))"

text \<open>A property name is a \<open>const char *\<close>: \<open>None\<close> is the null pointer.\<close>

definition getProperty :: "state \<Rightarrow> string option \<Rightarrow> QVariant \<Rightarrow> QVariant" where
  "getProperty st name defaultValue =
     (case name of None \<Rightarrow> Invalid
      | Some n \<Rightarrow>
        if n = [] then Invalid
        else
          (case attachedWindow st of None \<Rightarrow> Invalid
           | Some win \<Rightarrow>
             let v = w_property win n
             in if QVariant_isValid v then v else defaultValue))"

text \<open>
  The two overloads of \<open>setHitTestVisible\<close>. \<open>removeAll(widget)\<close> compares each stored
  \<open>QPointer\<close> with the widget's address.
\<close>

definition setHitTestVisible_widget :: "widget_ref option \<Rightarrow> bool \<Rightarrow> state \<Rightarrow> state" where
  "setHitTestVisible_widget widget visible st =
     (case QPointer_data st widget of None \<Rightarrow> st
      | Some r \<Rightarrow>
        (case getWindowDataMutable st of
           (None, st1) \<Rightarrow> st1
         | (Some data, st1) \<Rightarrow>
             if visible
             then storeWindowData
                    (data\<lparr> hitTestVisibleWidgets := hitTestVisibleWidgets data @ [Some r] \<rparr>) st1
             else storeWindowData
                    (data\<lparr> hitTestVisibleWidgets :=
                        filter (\<lambda>ptr. QPointer_data st1 ptr \<noteq> Some r) (hitTestVisibleWidgets data) \<rparr>)
                    st1))"

definition setHitTestVisible_rect :: "QRect \<Rightarrow> bool \<Rightarrow> state \<Rightarrow> state" where
  "setHitTestVisible_rect rect visible st =
     (if \<not> QRect_isValid rect then st
      else
        (case getWindowDataMutable st of
           (None, st1) \<Rightarrow> st1
         | (Some data, st1) \<Rightarrow>
             if visible
             then storeWindowData
                    (data\<lparr> hitTestVisibleRects := hitTestVisibleRects data @ [rect] \<rparr>) st1
             else storeWindowData
                    (data\<lparr> hitTestVisibleRects :=
                        filter (\<lambda>r. r \<noteq> rect) (hitTestVisibleRects data) \<rparr>) st1))"

section \<open>Attaching and detaching\<close>

definition isContentExtendedIntoTitleBar :: "state \<Rightarrow> bool" where
  "isContentExtendedIntoTitleBar st =
     (case fst (getWindowData st) of None \<Rightarrow> False | Some data \<Rightarrow> ready data)"

text \<open>
  \<open>attach()\<close>. The registry reads the window's identity through the table it is given
  (\<open>getWindowId\<close>), so the call is recorded with that identity. The timer's callback is
  recorded as scheduled; it runs after the call has returned.
\<close>

definition attach :: "state \<Rightarrow> state" where
  "attach st =
     (case findTopLevelWindow st of None \<Rightarrow> st
      | Some win \<Rightarrow>
        if QPointer_data st (m_window st) = Some win then st
        else
          let st1 = st\<lparr> m_window := Some win \<rparr>;
              st2 = (if \<not> testAttribute st1 win WA_DontCreateNativeAncestors
                     then setAttribute win WA_DontCreateNativeAncestors st1 else st1);
              st3 = (if \<not> testAttribute st2 win WA_NativeWindow
                     then setAttribute win WA_NativeWindow st2 else st2)
          in (case getWindowDataMutable st3 of
                (None, st4) \<Rightarrow> st4
              | (Some data, st4) \<Rightarrow>
                  if ready data then st4
                  else
                    let ps = BoundTo win (self st4);
                        st5 = st4\<lparr> calls := calls st4 @ [AddWindow (winId st4 win) ps] \<rparr>;
                        st6 = storeWindowData (data\<lparr> params := ps, ready := True \<rparr>) st5
                    in st6\<lparr> calls := calls st6 @ [SingleShot (m_qpaWaitTime st6)] \<rparr>))"

definition detach :: "state \<Rightarrow> state" where
  "detach st =
     (case attachedWindow st of None \<Rightarrow> st
      | Some win \<Rightarrow>
        let windowId = w_winId win
        in (case g_framelessWidgetsHelperData st windowId of None \<Rightarrow> st
            | Some d \<Rightarrow>
                let st1 = st\<lparr> g_framelessWidgetsHelperData :=
                               (g_framelessWidgetsHelperData st)(windowId := None) \<rparr>;
                    st2 = st1\<lparr> calls := calls st1 @ [RemoveWindow windowId] \<rparr>;
                    st3 = st2\<lparr> m_window := None \<rparr>
                in emitSignalForAllInstances ''windowChanged'' st3))"

definition extendsContentIntoTitleBar :: "bool \<Rightarrow> state \<Rightarrow> state" where
  "extendsContentIntoTitleBar v st =
     (let st1 = snd (getWindowData st)
      in if isContentExtendedIntoTitleBar st = v then st1
         else
           let st2 = (if v then attach st1 else detach st1)
           in if \<not> m_destroying st2
              then emitSignalForAllInstances ''extendsContentIntoTitleBarChanged'' st2
              else st2)"

text \<open>The destructor of \<open>FramelessWidgetsHelperPrivate\<close>.\<close>

definition destructor :: "state \<Rightarrow> state" where
  "destructor st = extendsContentIntoTitleBar False (st\<lparr> m_destroying := True \<rparr>)"

section \<open>The hit-test rules in the specification's words\<close>

text \<open>
  The draggable area as the specification describes it: the pixels of the title bar's
  rectangle that lie in no rectangle of a visible and enabled system button, in no rectangle
  of a visible and enabled excluded widget and in no valid excluded rectangle; nothing when
  there is no title bar, when it is hidden or disabled, when the helper is unattached, or when
  the title bar's rectangle misses the window's rectangle.
\<close>

definition inRect :: "QRect \<Rightarrow> QPoint \<Rightarrow> bool" where
  "inRect r p = (x1 r \<le> xp p \<and> xp p \<le> x2 r \<and> y1 r \<le> yp p \<and> yp p \<le> y2 r)"

definition excludedByWidget :: "state \<Rightarrow> QPoint \<Rightarrow> QPointer \<Rightarrow> bool" where
  "excludedByWidget st p ptr =
     (case QPointer_widget st ptr of None \<Rightarrow> False
      | Some w \<Rightarrow> w_isVisible w \<and> w_isEnabled w \<and> inRect (QRect_of (w_mapToWindow w) (w_size w)) p)"

definition draggableArea_spec :: "state \<Rightarrow> QPoint \<Rightarrow> bool" where
  "draggableArea_spec st p =
     (case attachedWindow st of None \<Rightarrow> False
      | Some win \<Rightarrow>
        (case windowData st of None \<Rightarrow> False
         | Some data \<Rightarrow>
           (case QPointer_widget st (titleBarWidget data) of None \<Rightarrow> False
            | Some titleBar \<Rightarrow>
                w_isVisible titleBar \<and> w_isEnabled titleBar
                \<and> QRect_intersects (QRect_of (w_mapToWindow titleBar) (w_size titleBar))
                     (QRect_of (QPoint 0 0) (w_size win))
                \<and> inRect (QRect_of (w_mapToWindow titleBar) (w_size titleBar)) p
                \<and> (\<forall>b \<in> set [windowIconButton data, contextHelpButton data, minimizeButton data,
                              maximizeButton data, closeButton data]. \<not> excludedByWidget st p b)
                \<and> (\<forall>b \<in> set (hitTestVisibleWidgets data). \<not> excludedByWidget st p b)
                \<and> (\<forall>r \<in> set (hitTestVisibleRects data). QRect_isValid r \<longrightarrow> \<not> inRect r p))))"


section \<open>A window with a title bar and system buttons\<close>

text \<open>
  A 400 by 300 window (address 1, identity 7) that owns one helper instance, a title bar at
  (0, 0) of size 400 by 30 (address 2), a close button at (370, 0) of size 30 by 30
  (address 3), and a window-icon and a help button (addresses 4 and 5) that overlap between
  x = 10 and x = 29.
\<close>

definition QWidget_default :: QWidget where
  "QWidget_default =
     \<lparr> w_isWindow = False, w_window = 1, w_winId = 0, w_isVisible = True, w_isEnabled = True,
       w_pos = QPoint 0 0, w_size = QSize 100 30, w_mapToWindow = QPoint 0 0,
       w_mapToGlobal = QPoint 0 0, w_minimumSize = QSize 0 0,
       w_maximumSize = QSize 16777215 16777215, w_sizePolicy = (Preferred, Preferred),
       w_windowFlags = {}, w_windowState = {}, w_attributes = {}, w_underMouse = False,
       w_windowHandle = False, w_property = (\<lambda>n. Invalid), w_helpers = [] \<rparr>"

definition example_window :: QWidget where
  "example_window =
     QWidget_default\<lparr> w_isWindow := True, w_winId := 7, w_size := QSize 400 300,
       w_windowHandle := True, w_helpers := [0] \<rparr>"

definition example_titleBar :: QWidget where
  "example_titleBar = QWidget_default\<lparr> w_size := QSize 400 30 \<rparr>"

definition example_closeButton :: QWidget where
  "example_closeButton =
     QWidget_default\<lparr> w_pos := QPoint 370 0, w_size := QSize 30 30,
       w_mapToWindow := QPoint 370 0, w_mapToGlobal := QPoint 370 0 \<rparr>"

definition example_iconButton :: QWidget where
  "example_iconButton = QWidget_default\<lparr> w_size := QSize 30 30 \<rparr>"

definition example_helpButton :: QWidget where
  "example_helpButton =
     QWidget_default\<lparr> w_pos := QPoint 10 0, w_size := QSize 30 30,
       w_mapToWindow := QPoint 10 0, w_mapToGlobal := QPoint 10 0 \<rparr>"

text \<open>The helper as constructed: a child of the window, not yet attached.\<close>

definition example_fresh :: state where
  "example_fresh =
     \<lparr> widgets = [1 \<mapsto> example_window, 2 \<mapsto> example_titleBar, 3 \<mapsto> example_closeButton,
                  4 \<mapsto> example_iconButton, 5 \<mapsto> example_helpButton],
       g_framelessWidgetsHelperData = Map.empty, calls = [], self = 0, q_parent = Some 1,
       m_window = None, m_destroying = False, m_qpaReady = False, m_qpaWaitTime = 0,
       cursor_pos = QPoint 0 0, Q_OS_WINDOWS = False, isWindowFrameBorderVisible = False,
       kDefaultResizeBorderThickness = 8 \<rparr>"

text \<open>The table entry and the state that \<open>attach()\<close> leaves from there.\<close>

definition example_data :: FramelessWidgetsHelperData where
  "example_data = FramelessWidgetsHelperData_default\<lparr> ready := True, params := BoundTo 1 0 \<rparr>"

definition example_attached :: state where
  "example_attached =
     example_fresh\<lparr>
       widgets := (widgets example_fresh)(1 \<mapsto>
          example_window\<lparr> w_attributes := {WA_NativeWindow, WA_DontCreateNativeAncestors} \<rparr>),
       g_framelessWidgetsHelperData := [7 \<mapsto> example_data],
       calls := [AddWindow 7 (BoundTo 1 0), SingleShot 0],
       m_window := Some 1 \<rparr>"

text \<open>Attached, with the title bar and the close button of the example.\<close>

definition example_titled :: state where
  "example_titled =
     example_attached\<lparr> g_framelessWidgetsHelperData :=
       [7 \<mapsto> example_data\<lparr> titleBarWidget := Some 2, closeButton := Some 3 \<rparr>] \<rparr>"

text \<open>Attached, with the overlapping window-icon and help buttons.\<close>

definition example_overlap :: state where
  "example_overlap =
     example_attached\<lparr> g_framelessWidgetsHelperData :=
       [7 \<mapsto> example_data\<lparr> windowIconButton := Some 4, contextHelpButton := Some 5 \<rparr>] \<rparr>"

text \<open>The same window, maximized.\<close>

definition example_maximized :: state where
  "example_maximized =
     example_attached\<lparr> widgets := (widgets example_attached)(1 \<mapsto>
       example_window\<lparr> w_windowState := {WindowMaximized} \<rparr>) \<rparr>"

section \<open>Views of the window's entry\<close>

text \<open>
  The widget in the slot of a role, as \<open>setSystemButtonState\<close> selects it; the maximize
  button serves both \<open>Maximize\<close> and \<open>Restore\<close>.
\<close>

definition systemButtonSlot :: "state \<Rightarrow> SystemButtonType \<Rightarrow> widget_ref option" where
  "systemButtonSlot st role =
     (case windowData st of None \<Rightarrow> None
      | Some data \<Rightarrow>
          (case role of
             WindowIcon \<Rightarrow> QPointer_data st (windowIconButton data)
           | Help \<Rightarrow> QPointer_data st (contextHelpButton data)
           | Minimize \<Rightarrow> QPointer_data st (minimizeButton data)
           | Maximize \<Rightarrow> QPointer_data st (maximizeButton data)
           | Restore \<Rightarrow> QPointer_data st (maximizeButton data)
           | Close \<Rightarrow> QPointer_data st (closeButton data)
           | Unknown \<Rightarrow> None))"

text \<open>The exclusion lists of the attached window; an unattached helper has none.\<close>

definition excludedWidgets :: "state \<Rightarrow> QPointer list" where
  "excludedWidgets st =
     (case windowData st of None \<Rightarrow> [] | Some data \<Rightarrow> hitTestVisibleWidgets data)"

definition excludedRects :: "state \<Rightarrow> QRect list" where
  "excludedRects st =
     (case windowData st of None \<Rightarrow> [] | Some data \<Rightarrow> hitTestVisibleRects data)"

text \<open>
  Windows and widgets for the repaint forcer: the window with the fixed-size hint while
  maximized, the title bar with a fixed size policy in both directions, and a widget whose
  minimum and maximum sizes are both the empty size (0, 0).
\<close>

definition example_fixed_maximized :: state where
  "example_fixed_maximized =
     example_fresh\<lparr> widgets := [1 \<mapsto>
       example_window\<lparr> w_windowFlags := {MSWindowsFixedSizeDialogHint},
                       w_windowState := {WindowMaximized} \<rparr>] \<rparr>"

definition example_fixed_child :: state where
  "example_fixed_child =
     example_fresh\<lparr> widgets := (widgets example_fresh)(2 \<mapsto>
       example_titleBar\<lparr> w_pos := QPoint 5 7, w_sizePolicy := (Fixed, Fixed) \<rparr>) \<rparr>"

definition example_empty_fixed :: state where
  "example_empty_fixed =
     example_fresh\<lparr> widgets := (widgets example_fresh)(2 \<mapsto>
       example_titleBar\<lparr> w_size := QSize 0 0, w_maximumSize := QSize 0 0 \<rparr>) \<rparr>"

section \<open>Sequences of calls\<close>








text \<open>A widget with the fixed size policy whose position is 7 pixels short of the largest \<open>int\<close>.\<close>

definition example_far_child :: state where
  "example_far_child =
     example_fresh\<lparr> widgets := (widgets example_fresh)(2 \<mapsto>
       example_titleBar\<lparr> w_pos := QPoint 2147483640 7, w_sizePolicy := (Fixed, Fixed) \<rparr>) \<rparr>"

section \<open>Unfolding rules\<close>

lemmas example_defs =
  example_fresh_def example_attached_def example_titled_def example_overlap_def
  example_maximized_def example_data_def
  example_window_def example_titleBar_def example_closeButton_def example_iconButton_def
  example_helpButton_def QWidget_default_def FramelessWidgetsHelperData_default_def

lemmas lookup_defs =
  getWindowData_def getWindowDataMutable_def windowData_def insertWindowData_def
  attachedWindow_def QPointer_widget_def QPointer_data_def

lemmas geometry_defs =
  geometry_def QRect_of_def QRect_contains_def QRect_intersects_def QRect_isNull_def
  QRect_isEmpty_def QRect_isValid_def QRegion_of_def QRegion_subtracted_def QRegion_contains_def
  mapWidgetGeometryToScene_def

section \<open>The draggable area\<close>

lemma QRegion_of_inRect: "QRegion_of r p = inRect r p"
  by (auto simp: QRegion_of_def inRect_def QRect_isEmpty_def)

lemma foldl_subtractWidget:
  "attachedWindow st = Some win \<Longrightarrow>
   foldl (subtractWidget st) region ps p = (region p \<and> (\<forall>b \<in> set ps. \<not> excludedByWidget st p b))"
proof (induction ps arbitrary: region)
  case Nil
  then show ?case by simp
next
  case (Cons b ps)
  have step: "subtractWidget st region b p = (region p \<and> \<not> excludedByWidget st p b)"
    using Cons.prems
    by (auto simp add: subtractWidget_def excludedByWidget_def mapWidgetGeometryToScene_def
        QRegion_subtracted_def QRegion_of_inRect split: option.splits)
  show ?case
    using Cons.IH [OF Cons.prems, of "subtractWidget st region b"] step by auto
qed

lemma foldl_subtractRect:
  "foldl subtractRect region rs p = (region p \<and> (\<forall>r \<in> set rs. QRect_isValid r \<longrightarrow> \<not> inRect r p))"
proof (induction rs arbitrary: region)
  case Nil
  then show ?case by simp
next
  case (Cons r rs)
  have step: "subtractRect region r p = (region p \<and> (QRect_isValid r \<longrightarrow> \<not> inRect r p))"
    by (simp add: subtractRect_def QRegion_subtracted_def QRegion_of_inRect)
  show ?case
    using Cons.IH [of "subtractRect region r"] step by auto
qed

lemma isInTitleBarDraggableArea_eq_spec:
  "isInTitleBarDraggableArea st p = draggableArea_spec st p"
proof (cases "attachedWindow st")
  case None
  then show ?thesis
    by (simp add: isInTitleBarDraggableArea_def draggableArea_spec_def getWindowData_def windowData_def)
next
  case (Some win)
  then obtain data where d: "windowData st = Some data"
    by (cases "g_framelessWidgetsHelperData st (w_winId win)") (auto simp: windowData_def)
  show ?thesis
  proof (cases "QPointer_widget st (titleBarWidget data)")
    case None
    then show ?thesis using Some d
      by (simp add: isInTitleBarDraggableArea_def draggableArea_spec_def getWindowData_def)
  next
    case tb: (Some titleBar)
    show ?thesis
      using Some d tb
      by (simp add: isInTitleBarDraggableArea_def draggableArea_spec_def getWindowData_def
            Let_def mapWidgetGeometryToScene_def QRegion_contains_def
            foldl_subtractRect foldl_subtractWidget [OF Some] QRegion_of_inRect
          del: foldl_Cons set_simps)
         (auto)
  qed
qed

lemma isInTitleBarDraggableArea_example:
  "\<not> isInTitleBarDraggableArea example_titled (QPoint 385 15)"
  "isInTitleBarDraggableArea example_titled (QPoint 10 15)"
  "\<not> isInTitleBarDraggableArea example_titled (QPoint 10 50)"
  by (simp_all add: isInTitleBarDraggableArea_def example_defs lookup_defs geometry_defs
      subtractWidget_def Let_def)

text \<open>
  C1. At every point, \<open>isInTitleBarDraggableArea\<close> answers as the specification's draggable
  area does: false when no title bar is set, when the title bar is hidden or disabled, when
  the helper is unattached, or when the title bar's mapped rectangle misses the window's
  rectangle; otherwise true exactly for the points of the title bar's rectangle outside
  every visible and enabled system button, every visible and enabled excluded widget and
  every valid excluded rectangle. With the title bar (0, 0, 400, 30) and the close button
  (370, 0, 30, 30), it is false at (385, 15), true at (10, 15) and false at (10, 50).
\<close>

theorem isInTitleBarDraggableArea_spec:
  "isInTitleBarDraggableArea st p = draggableArea_spec st p
   \<and> \<not> isInTitleBarDraggableArea example_titled (QPoint 385 15)
   \<and> isInTitleBarDraggableArea example_titled (QPoint 10 15)
   \<and> \<not> isInTitleBarDraggableArea example_titled (QPoint 10 50)"
  by (simp add: isInTitleBarDraggableArea_eq_spec [symmetric] isInTitleBarDraggableArea_example)

theorem isInTitleBarDraggableArea_spec_witness:
  "draggableArea_spec example_titled (QPoint 10 15)
   \<and> \<not> draggableArea_spec example_titled (QPoint 385 15)
   \<and> \<not> draggableArea_spec example_titled (QPoint 10 50)"
  using isInTitleBarDraggableArea_spec [of example_titled "QPoint 10 15"]
    isInTitleBarDraggableArea_spec [of example_titled "QPoint 385 15"]
    isInTitleBarDraggableArea_spec [of example_titled "QPoint 10 50"]
  by simp

section \<open>System buttons under a point\<close>




section \<open>Mouse events over the resize border\<close>

text \<open>
  C6. For an attached window, \<open>shouldIgnoreMouseEvents\<close> is true exactly when the window is
  in its normal state (not minimized, maximized or fullscreen) and the point is in the band
  of the border thickness along the top edge (\<open>y\<close> below the thickness) or, unless the
  platform shows a native frame border, in the band along the left edge (\<open>x\<close> below the
  thickness) or the right edge (\<open>x\<close> from the width less the thickness on). With thickness
  8, a point with \<open>y = 3\<close> gives true on a normal window and false on a maximized one.
\<close>

theorem shouldIgnoreMouseEvents_band:
  assumes "attachedWindow st = Some win"
  shows "shouldIgnoreMouseEvents st p =
     (\<not> QFlags_and (w_windowState win) {WindowMinimized, WindowMaximized, WindowFullScreen}
      \<and> (yp p < kDefaultResizeBorderThickness st
         \<or> (\<not> (Q_OS_WINDOWS st \<and> isWindowFrameBorderVisible st)
            \<and> (xp p < kDefaultResizeBorderThickness st
               \<or> wd (w_size win) - kDefaultResizeBorderThickness st \<le> xp p))))
    \<and> (kDefaultResizeBorderThickness st = 8
        \<and> \<not> QFlags_and (w_windowState win)
              {WindowMinimized, WindowMaximized, WindowFullScreen}
        \<longrightarrow> shouldIgnoreMouseEvents st (QPoint x 3))
    \<and> (WindowMaximized \<in> w_windowState win \<longrightarrow> \<not> shouldIgnoreMouseEvents st (QPoint x 3))"
  using assms
  by (auto simp add: shouldIgnoreMouseEvents_def windowStatesToWindowState_def QFlags_and_def
      Let_def)

theorem shouldIgnoreMouseEvents_band_witness:
  "shouldIgnoreMouseEvents example_attached (QPoint 200 3)
   \<and> \<not> shouldIgnoreMouseEvents example_maximized (QPoint 200 3)
   \<and> \<not> shouldIgnoreMouseEvents example_attached (QPoint 200 100)"
proof -
  have a: "attachedWindow example_attached =
      Some (example_window\<lparr> w_attributes := {WA_NativeWindow, WA_DontCreateNativeAncestors} \<rparr>)"
    by (simp add: example_defs lookup_defs)
  have m: "attachedWindow example_maximized =
      Some (example_window\<lparr> w_windowState := {WindowMaximized} \<rparr>)"
    by (simp add: example_defs lookup_defs)
  have k: "kDefaultResizeBorderThickness example_attached = 8"
    "\<not> Q_OS_WINDOWS example_attached"
    by (simp_all add: example_defs)
  show ?thesis
    using shouldIgnoreMouseEvents_band [OF a, of "QPoint 200 3" 200]
      shouldIgnoreMouseEvents_band [OF m, of "QPoint 200 3" 200]
      shouldIgnoreMouseEvents_band [OF a, of "QPoint 200 100" 200] k
    by (simp add: example_window_def QWidget_default_def QFlags_and_def)
qed

section \<open>Window properties\<close>

text \<open>
  C9. With no window attached, \<open>getProperty\<close> returns the invalid variant whatever the name
  and the default are, so a valid default is not what it returns. With a window attached
  and a name that is not empty, it returns the window's property when that is valid and
  the default when the property is unset or invalid; with a null or empty name it returns
  the invalid variant. The default is thus returned on one path only: a window is attached
  and the named property is unset or invalid.
\<close>

theorem getProperty_unattached:
  "(attachedWindow st = None \<longrightarrow> getProperty st name d = Invalid)
   \<and> (attachedWindow st = None \<and> QVariant_isValid d \<longrightarrow> getProperty st name d \<noteq> d)
   \<and> (attachedWindow st = Some win \<and> n \<noteq> [] \<longrightarrow>
        getProperty st (Some n) d =
          (if QVariant_isValid (w_property win n) then w_property win n else d))
   \<and> (name = None \<or> name = Some [] \<longrightarrow> getProperty st name d = Invalid)"
  by (auto simp add: getProperty_def QVariant_isValid_def Let_def split: option.splits)

theorem getProperty_unattached_witness:
  "getProperty example_fresh (Some ''title'') (IntValue 5) = Invalid
   \<and> getProperty example_attached (Some ''title'') (IntValue 5) = IntValue 5"
proof -
  have f: "attachedWindow example_fresh = None"
    by (simp add: example_defs lookup_defs)
  have a: "attachedWindow example_attached =
      Some (example_window\<lparr> w_attributes := {WA_NativeWindow, WA_DontCreateNativeAncestors} \<rparr>)"
    by (simp add: example_defs lookup_defs)
  show ?thesis
    using getProperty_unattached [of example_fresh "Some ''title''" "IntValue 5"]
      getProperty_unattached [where st = example_attached and n = "''title''"
        and d = "IntValue 5"] f a
    by (simp add: example_window_def QWidget_default_def QVariant_isValid_def)
qed

section \<open>What the lazy table lookup leaves alone\<close>

lemma QPointer_data_insertWindowData [simp]:
  "QPointer_data (insertWindowData st) p = QPointer_data st p"
  by (simp add: QPointer_data_def insertWindowData_def split: option.splits)

lemma widgets_insertWindowData [simp]: "widgets (insertWindowData st) = widgets st"
  by (simp add: insertWindowData_def split: option.splits)

lemma calls_insertWindowData [simp]: "calls (insertWindowData st) = calls st"
  by (simp add: insertWindowData_def split: option.splits)

lemma m_window_insertWindowData [simp]: "m_window (insertWindowData st) = m_window st"
  by (simp add: insertWindowData_def split: option.splits)

lemma attachedWindow_insertWindowData [simp]:
  "attachedWindow (insertWindowData st) = attachedWindow st"
  by (simp add: attachedWindow_def QPointer_widget_def split: option.splits)

lemma windowData_insertWindowData [simp]: "windowData (insertWindowData st) = windowData st"
  by (auto simp add: windowData_def insertWindowData_def attachedWindow_def QPointer_widget_def
      split: option.splits)

section \<open>Feedback on system buttons\<close>

lemma setSystemButtonState_None:
  "systemButtonSlot st role = None \<Longrightarrow>
      setSystemButtonState role bs st = (if role = Unknown then st else insertWindowData st)"
  by (cases role; cases "windowData st")
     (simp_all add: setSystemButtonState_def systemButtonSlot_def getWindowData_def)

lemma setSystemButtonState_Some:
  "systemButtonSlot st role = Some btn \<Longrightarrow>
      setSystemButtonState role bs st = updateButtonState bs btn (insertWindowData st)"
  by (cases role; cases "windowData st")
     (simp_all add: setSystemButtonState_def systemButtonSlot_def getWindowData_def)

lemma updateButtonState_calls:
  "calls (updateButtonState bs btn st) =
     (case widgets st btn of None \<Rightarrow> calls st
      | Some b \<Rightarrow> (case widgets st (w_window b) of None \<Rightarrow> calls st
          | Some win \<Rightarrow> calls st @ [EmulateQtMouseEvent btn (w_window b) bs (cursor_pos st)
               (QPoint_minus (cursor_pos st) (w_mapToGlobal win))
               (QPoint_minus (cursor_pos st) (w_mapToGlobal b))
               (w_underMouse b) (WA_Hover \<in> w_attributes b)]))"
  by (simp add: updateButtonState_def Let_def split: option.splits)

lemma updateButtonState_widgets [simp]: "widgets (updateButtonState bs btn st) = widgets st"
  by (simp add: updateButtonState_def Let_def split: option.splits)

lemma systemButtonSlot_example:
  "systemButtonSlot example_titled Minimize = None"
  "systemButtonSlot example_titled Close = Some 3"
  by (simp_all add: systemButtonSlot_def example_defs lookup_defs)

text \<open>
  C8. When the slot of the role holds no widget, \<open>setSystemButtonState\<close> synthesizes no
  event and touches no widget: the calls and the widgets are as before, and the state is
  the one the table lookup leaves (the given state itself for the role \<open>Unknown\<close>). When a
  widget occupies the slot, one feedback event is emulated on that widget, with the cursor
  position in global, window and widget coordinates. A call that adds an event had a widget
  in the slot.
\<close>

theorem setSystemButtonState_empty_slot:
  "(systemButtonSlot st role = None \<longrightarrow>
      setSystemButtonState role bs st = (if role = Unknown then st else insertWindowData st)
      \<and> calls (setSystemButtonState role bs st) = calls st
      \<and> widgets (setSystemButtonState role bs st) = widgets st)
   \<and> (systemButtonSlot st role = Some btn \<and> widgets st btn = Some b
        \<and> widgets st (w_window b) = Some win \<longrightarrow>
      calls (setSystemButtonState role bs st) = calls st @
        [EmulateQtMouseEvent btn (w_window b) bs (cursor_pos st)
           (QPoint_minus (cursor_pos st) (w_mapToGlobal win))
           (QPoint_minus (cursor_pos st) (w_mapToGlobal b))
           (w_underMouse b) (WA_Hover \<in> w_attributes b)]
      \<and> widgets (setSystemButtonState role bs st) = widgets st)
   \<and> (calls (setSystemButtonState role bs st) \<noteq> calls st \<longrightarrow> systemButtonSlot st role \<noteq> None)"
proof (intro conjI impI)
  assume e: "systemButtonSlot st role = None"
  show "setSystemButtonState role bs st = (if role = Unknown then st else insertWindowData st)"
    by (rule setSystemButtonState_None [OF e])
  then show "calls (setSystemButtonState role bs st) = calls st"
    and "widgets (setSystemButtonState role bs st) = widgets st"
    by simp_all
next
  assume s: "systemButtonSlot st role = Some btn \<and> widgets st btn = Some b
        \<and> widgets st (w_window b) = Some win"
  then have eq: "setSystemButtonState role bs st = updateButtonState bs btn (insertWindowData st)"
    by (simp add: setSystemButtonState_Some)
  have cp: "cursor_pos (insertWindowData st) = cursor_pos st"
    by (simp add: insertWindowData_def split: option.splits)
  show "calls (setSystemButtonState role bs st) = calls st @
        [EmulateQtMouseEvent btn (w_window b) bs (cursor_pos st)
           (QPoint_minus (cursor_pos st) (w_mapToGlobal win))
           (QPoint_minus (cursor_pos st) (w_mapToGlobal b))
           (w_underMouse b) (WA_Hover \<in> w_attributes b)]"
    using s by (simp add: eq updateButtonState_calls cp)
  show "widgets (setSystemButtonState role bs st) = widgets st"
    by (simp add: eq)
next
  assume c: "calls (setSystemButtonState role bs st) \<noteq> calls st"
  show "systemButtonSlot st role \<noteq> None"
  proof
    assume "systemButtonSlot st role = None"
    then have "setSystemButtonState role bs st = (if role = Unknown then st else insertWindowData st)"
      by (rule setSystemButtonState_None)
    with c show False by (simp split: if_splits)
  qed
qed

theorem setSystemButtonState_empty_slot_witness:
  "calls (setSystemButtonState Minimize Hovered example_titled) = calls example_titled
   \<and> calls (setSystemButtonState Close Hovered example_titled) = calls example_titled @
        [EmulateQtMouseEvent 3 1 Hovered (QPoint 0 0) (QPoint 0 0) (QPoint (- 370) 0) False False]"
proof -
  have w: "widgets example_titled 3 = Some example_closeButton"
    "widgets example_titled (w_window example_closeButton) =
       Some (example_window\<lparr> w_attributes := {WA_NativeWindow, WA_DontCreateNativeAncestors} \<rparr>)"
    by (simp_all add: example_defs)
  have v: "w_window example_closeButton = 1" "cursor_pos example_titled = QPoint 0 0"
    "w_mapToGlobal example_closeButton = QPoint 370 0" "\<not> w_underMouse example_closeButton"
    "w_attributes example_closeButton = {}"
    "w_mapToGlobal (example_window\<lparr> w_attributes := {WA_NativeWindow, WA_DontCreateNativeAncestors} \<rparr>)
       = QPoint 0 0"
    by (simp_all add: example_defs)
  show ?thesis
    using setSystemButtonState_empty_slot [of example_titled Minimize Hovered]
      setSystemButtonState_empty_slot [of example_titled Close Hovered 3 example_closeButton
        "example_window\<lparr> w_attributes := {WA_NativeWindow, WA_DontCreateNativeAncestors} \<rparr>"]
      systemButtonSlot_example w
    by (simp add: v QPoint_minus_def int32_def)
qed

section \<open>Hit-test exclusions\<close>

lemma attachedWindow_storeWindowData [simp]:
  "attachedWindow (storeWindowData d st) = attachedWindow st"
  by (simp add: attachedWindow_def QPointer_widget_def storeWindowData_def split: option.splits)

lemma windowData_storeWindowData:
  assumes "attachedWindow st = Some win"
  shows "windowData (storeWindowData d st) = Some d"
proof -
  have s: "storeWindowData d st = st\<lparr> g_framelessWidgetsHelperData :=
             (g_framelessWidgetsHelperData st)(w_winId win \<mapsto> d) \<rparr>"
    using assms by (simp add: storeWindowData_def)
  have a: "attachedWindow (storeWindowData d st) = Some win"
    using assms by simp
  show ?thesis
    unfolding windowData_def a by (simp add: s)
qed

lemma QPointer_data_live: "widgets st r = Some w \<Longrightarrow> QPointer_data st (Some r) = Some r"
  by (simp add: QPointer_data_def)

lemma windowData_None_iff: "windowData st = None \<longleftrightarrow> attachedWindow st = None"
  by (simp add: windowData_def split: option.splits)

lemma count_list_filter:
  "count_list (filter P xs) x = (if P x then count_list xs x else 0)"
  by (induction xs) auto

lemma excludedWidgets_remove:
  "widgets st r = Some w \<Longrightarrow>
   excludedWidgets (setHitTestVisible_widget (Some r) False st) =
     filter (\<lambda>ptr. ptr \<noteq> Some r) (excludedWidgets st)"
proof (cases "attachedWindow st")
  case None
  assume "widgets st r = Some w"
  with None show ?thesis
    by (simp add: excludedWidgets_def setHitTestVisible_widget_def getWindowDataMutable_def
        windowData_def QPointer_data_def insertWindowData_def)
next
  case (Some win)
  assume r: "widgets st r = Some w"
  from Some obtain data where d: "windowData st = Some data"
    by (cases "windowData st") (simp_all add: windowData_None_iff)
  have same: "(\<lambda>ptr. QPointer_data st ptr \<noteq> Some r) = (\<lambda>ptr. ptr \<noteq> Some r)"
    using r by (auto simp add: QPointer_data_def fun_eq_iff split: option.splits)
  show ?thesis
    using d Some
    by (simp add: excludedWidgets_def setHitTestVisible_widget_def getWindowDataMutable_def
        QPointer_data_live [OF r] windowData_storeWindowData same)
qed

lemma excludedWidgets_append:
  "widgets st r = Some w \<Longrightarrow> attachedWindow st = Some win \<Longrightarrow>
   excludedWidgets (setHitTestVisible_widget (Some r) True st) = excludedWidgets st @ [Some r]"
proof -
  assume r: "widgets st r = Some w" and a: "attachedWindow st = Some win"
  from a obtain data where d: "windowData st = Some data"
    by (cases "windowData st") (simp_all add: windowData_None_iff)
  show ?thesis
    using d a
    by (simp add: excludedWidgets_def setHitTestVisible_widget_def getWindowDataMutable_def
        QPointer_data_live [OF r] windowData_storeWindowData)
qed

lemma excludedRects_remove:
  "QRect_isValid rect \<Longrightarrow>
   excludedRects (setHitTestVisible_rect rect False st) =
     filter (\<lambda>r. r \<noteq> rect) (excludedRects st)"
proof (cases "attachedWindow st")
  case None
  assume "QRect_isValid rect"
  with None show ?thesis
    by (simp add: excludedRects_def setHitTestVisible_rect_def getWindowDataMutable_def
        windowData_def insertWindowData_def)
next
  case (Some win)
  assume v: "QRect_isValid rect"
  from Some obtain data where d: "windowData st = Some data"
    by (cases "windowData st") (simp_all add: windowData_None_iff)
  show ?thesis
    using v d Some
    by (simp add: excludedRects_def setHitTestVisible_rect_def getWindowDataMutable_def
        windowData_storeWindowData)
qed

lemma excludedRects_append:
  "QRect_isValid rect \<Longrightarrow> attachedWindow st = Some win \<Longrightarrow>
   excludedRects (setHitTestVisible_rect rect True st) = excludedRects st @ [rect]"
proof -
  assume v: "QRect_isValid rect" and a: "attachedWindow st = Some win"
  from a obtain data where d: "windowData st = Some data"
    by (cases "windowData st") (simp_all add: windowData_None_iff)
  show ?thesis
    using v d a
    by (simp add: excludedRects_def setHitTestVisible_rect_def getWindowDataMutable_def
        windowData_storeWindowData)
qed

text \<open>
  C10. For a live widget and an attached helper, \<open>setHitTestVisible(widget, true)\<close> appends
  the widget to the exclusion list whether or not it is there already, so each call adds
  one occurrence; from every state, hence after every sequence of earlier calls, one
  \<open>setHitTestVisible(widget, false)\<close> leaves no occurrence of the widget in the list. The
  same holds for valid literal rectangles.
\<close>

theorem setHitTestVisible_append_removeAll:
  assumes "widgets st r = Some w" and "QRect_isValid rect"
  shows "count_list (excludedWidgets (setHitTestVisible_widget (Some r) False st)) (Some r) = 0
    \<and> (attachedWindow st \<noteq> None \<longrightarrow>
         excludedWidgets (setHitTestVisible_widget (Some r) True st) = excludedWidgets st @ [Some r]
         \<and> count_list (excludedWidgets (setHitTestVisible_widget (Some r) True st)) (Some r)
             = count_list (excludedWidgets st) (Some r) + 1)
    \<and> count_list (excludedRects (setHitTestVisible_rect rect False st)) rect = 0
    \<and> (attachedWindow st \<noteq> None \<longrightarrow>
         excludedRects (setHitTestVisible_rect rect True st) = excludedRects st @ [rect]
         \<and> count_list (excludedRects (setHitTestVisible_rect rect True st)) rect
             = count_list (excludedRects st) rect + 1)"
  using assms
  by (auto simp add: excludedWidgets_remove excludedWidgets_append excludedRects_remove
      excludedRects_append count_list_filter)

lemma setHitTestVisible_example:
  "excludedWidgets (setHitTestVisible_widget (Some 2) True
      (setHitTestVisible_widget (Some 2) True example_attached)) = [Some 2, Some 2]"
  "excludedRects (setHitTestVisible_rect (QRect 0 0 9 9) True
      (setHitTestVisible_rect (QRect 0 0 9 9) True example_attached)) = [QRect 0 0 9 9, QRect 0 0 9 9]"
  by (simp_all add: excludedWidgets_def excludedRects_def setHitTestVisible_widget_def
      setHitTestVisible_rect_def storeWindowData_def QRect_isValid_def example_defs lookup_defs)

theorem setHitTestVisible_append_removeAll_witness:
  "count_list (excludedWidgets (setHitTestVisible_widget (Some 2) True
      (setHitTestVisible_widget (Some 2) True example_attached))) (Some 2) = 2
   \<and> count_list (excludedWidgets (setHitTestVisible_widget (Some 2) False
        (setHitTestVisible_widget (Some 2) True
          (setHitTestVisible_widget (Some 2) True example_attached)))) (Some 2) = 0
   \<and> count_list (excludedRects (setHitTestVisible_rect (QRect 0 0 9 9) False
        (setHitTestVisible_rect (QRect 0 0 9 9) True
          (setHitTestVisible_rect (QRect 0 0 9 9) True example_attached)))) (QRect 0 0 9 9) = 0"
proof -
  let ?s = "setHitTestVisible_widget (Some 2) True
      (setHitTestVisible_widget (Some 2) True example_attached)"
  let ?t = "setHitTestVisible_rect (QRect 0 0 9 9) True
      (setHitTestVisible_rect (QRect 0 0 9 9) True example_attached)"
  have v: "QRect_isValid (QRect 0 0 9 9)"
    by (simp add: QRect_isValid_def)
  have ws: "widgets ?s 2 = Some example_titleBar"
    by (simp add: setHitTestVisible_widget_def storeWindowData_def example_defs lookup_defs)
  have wt: "widgets ?t 2 = Some example_titleBar"
    by (simp add: setHitTestVisible_rect_def storeWindowData_def QRect_isValid_def
        example_defs lookup_defs)
  show ?thesis
    using setHitTestVisible_append_removeAll [OF ws v]
      setHitTestVisible_append_removeAll [OF wt v]
    by (simp add: setHitTestVisible_example)
qed

section \<open>Forcing a repaint\<close>

lemma move_live:
  "widgets st r = Some w \<Longrightarrow>
   move r p st = st\<lparr> widgets := (widgets st)(r \<mapsto> w\<lparr> w_pos := p \<rparr>),
                   calls := calls st @ [Move r p] \<rparr>"
  by (simp add: move_def)

lemma move_thrice:
  assumes "widgets st r = Some w"
  shows "move r p3 (move r p2 (move r p1 st)) =
     st\<lparr> widgets := (widgets st)(r \<mapsto> w\<lparr> w_pos := p3 \<rparr>),
         calls := calls st @ [Move r p1, Move r p2, Move r p3] \<rparr>"
proof -
  have 1: "move r p1 st = st\<lparr> widgets := (widgets st)(r \<mapsto> w\<lparr> w_pos := p1 \<rparr>),
                   calls := calls st @ [Move r p1] \<rparr>"
    by (rule move_live [OF assms])
  have 2: "move r p2 (move r p1 st) =
      st\<lparr> widgets := (widgets st)(r \<mapsto> w\<lparr> w_pos := p2 \<rparr>),
          calls := calls st @ [Move r p1, Move r p2] \<rparr>"
    unfolding 1 by (simp add: move_def)
  show ?thesis
    unfolding 2 by (simp add: move_def)
qed

lemma resize_live:
  "widgets st r = Some w \<Longrightarrow>
   resize r s st =
     st\<lparr> widgets := (widgets st)(r \<mapsto>
            w\<lparr> w_size := expandedTo (boundedTo s (w_maximumSize w)) (w_minimumSize w) \<rparr>),
         calls := calls st @ [Resize r s] \<rparr>"
  by (simp add: resize_def)

lemma resize_thrice:
  assumes "widgets st r = Some w"
  shows "resize r s3 (resize r s2 (resize r s1 st)) =
     st\<lparr> widgets := (widgets st)(r \<mapsto>
            w\<lparr> w_size := expandedTo (boundedTo s3 (w_maximumSize w)) (w_minimumSize w) \<rparr>),
         calls := calls st @ [Resize r s1, Resize r s2, Resize r s3] \<rparr>"
proof -
  have 1: "resize r s1 st =
     st\<lparr> widgets := (widgets st)(r \<mapsto>
            w\<lparr> w_size := expandedTo (boundedTo s1 (w_maximumSize w)) (w_minimumSize w) \<rparr>),
         calls := calls st @ [Resize r s1] \<rparr>"
    by (rule resize_live [OF assms])
  have 2: "resize r s2 (resize r s1 st) =
     st\<lparr> widgets := (widgets st)(r \<mapsto>
            w\<lparr> w_size := expandedTo (boundedTo s2 (w_maximumSize w)) (w_minimumSize w) \<rparr>),
         calls := calls st @ [Resize r s1, Resize r s2] \<rparr>"
    unfolding 1 by (simp add: resize_def)
  show ?thesis
    unfolding 2 by (simp add: resize_def)
qed

lemma forceWidgetRepaint_resizable:
  assumes "widgets st r = Some w" and "\<not> isWidgetFixedSize (Some w)"
    and "\<not> w_isWindow w"
  shows "forceWidgetRepaint (Some r) st =
     st\<lparr> widgets := (widgets st)(r \<mapsto>
            w\<lparr> w_size := expandedTo (boundedTo (w_size w) (w_maximumSize w)) (w_minimumSize w),
               w_pos := w_pos w \<rparr>),
         calls := calls st @
           [Update r, Resize r (shrunkBy (w_size w) (10, 10, 10, 10)),
            Resize r (grownBy (w_size w) (10, 10, 10, 10)), Resize r (w_size w),
            Move r (QPoint_minus (w_pos w) (QPoint 10 10)),
            Move r (QPoint_plus (w_pos w) (QPoint 10 10)), Move r (w_pos w), Update r] \<rparr>"
proof -
  let ?st1 = "update r st"
  have u: "widgets ?st1 r = Some w" "size_of ?st1 r = w_size w"
    using assms by (simp_all add: update_def size_of_def)
  let ?w1 = "w\<lparr> w_size := expandedTo (boundedTo (w_size w) (w_maximumSize w)) (w_minimumSize w) \<rparr>"
  let ?st1a = "resize r (w_size w) (resize r (grownBy (w_size w) (10, 10, 10, 10))
                 (resize r (shrunkBy (w_size w) (10, 10, 10, 10)) ?st1))"
  have a: "?st1a = ?st1\<lparr> widgets := (widgets ?st1)(r \<mapsto> ?w1),
         calls := calls ?st1 @ [Resize r (shrunkBy (w_size w) (10, 10, 10, 10)),
            Resize r (grownBy (w_size w) (10, 10, 10, 10)), Resize r (w_size w)] \<rparr>"
    by (rule resize_thrice [OF u(1)])
  have wa: "widgets ?st1a r = Some ?w1" "pos_of ?st1a r = w_pos w"
    unfolding a by (simp_all add: pos_of_def)
  have m: "move r (w_pos w) (move r (QPoint_plus (w_pos w) (QPoint 10 10))
             (move r (QPoint_minus (w_pos w) (QPoint 10 10)) ?st1a)) =
       ?st1a\<lparr> widgets := (widgets ?st1a)(r \<mapsto> ?w1\<lparr> w_pos := w_pos w \<rparr>),
         calls := calls ?st1a @ [Move r (QPoint_minus (w_pos w) (QPoint 10 10)),
            Move r (QPoint_plus (w_pos w) (QPoint 10 10)), Move r (w_pos w)] \<rparr>"
    by (rule move_thrice [OF wa(1)])
  have "forceWidgetRepaint (Some r) st =
      update r (move r (w_pos w) (move r (QPoint_plus (w_pos w) (QPoint 10 10))
             (move r (QPoint_minus (w_pos w) (QPoint 10 10)) ?st1a)))"
    using assms by (simp add: forceWidgetRepaint_def Let_def u wa)
  also have "\<dots> = st\<lparr> widgets := (widgets st)(r \<mapsto>
            w\<lparr> w_size := expandedTo (boundedTo (w_size w) (w_maximumSize w)) (w_minimumSize w),
               w_pos := w_pos w \<rparr>),
         calls := calls st @
           [Update r, Resize r (shrunkBy (w_size w) (10, 10, 10, 10)),
            Resize r (grownBy (w_size w) (10, 10, 10, 10)), Resize r (w_size w),
            Move r (QPoint_minus (w_pos w) (QPoint 10 10)),
            Move r (QPoint_plus (w_pos w) (QPoint 10 10)), Move r (w_pos w), Update r] \<rparr>"
    unfolding m unfolding a by (simp add: update_def)
  finally show ?thesis .
qed

lemma forceWidgetRepaint_fixed:
  assumes "widgets st r = Some w" and "isWidgetFixedSize (Some w)"
  shows "forceWidgetRepaint (Some r) st =
     (if \<not> w_isWindow w \<or>
         \<not> QFlags_and (w_windowState w) {WindowMinimized, WindowMaximized, WindowFullScreen}
      then st\<lparr> widgets := (widgets st)(r \<mapsto> w\<lparr> w_pos := w_pos w \<rparr>),
               calls := calls st @
                 [Update r, Move r (QPoint_minus (w_pos w) (QPoint 10 10)),
                  Move r (QPoint_plus (w_pos w) (QPoint 10 10)), Move r (w_pos w)]
                 @ (if Q_OS_WINDOWS st \<and> w_isWindow w \<and> w_windowHandle w
                    then [UpdateInternalWindowFrameMargins r] else [])
                 @ [Update r] \<rparr>
      else st\<lparr> calls := calls st @ [Update r]
                 @ (if Q_OS_WINDOWS st \<and> w_isWindow w \<and> w_windowHandle w
                    then [UpdateInternalWindowFrameMargins r] else [])
                 @ [Update r] \<rparr>)"
proof -
  have u: "widgets (update r st) r = Some w" "pos_of (update r st) r = w_pos w"
    "calls (update r st) = calls st @ [Update r]" "Q_OS_WINDOWS (update r st) = Q_OS_WINDOWS st"
    using assms by (simp_all add: update_def pos_of_def)
  show ?thesis
    using assms
    by (simp add: forceWidgetRepaint_def Let_def u move_thrice [OF u(1)])
       (simp add: update_def)
qed

lemma forceWidgetRepaint_skipped:
  assumes "widgets st r = Some w" and "w_isWindow w"
    and "QFlags_and (w_windowState w) {WindowMinimized, WindowMaximized, WindowFullScreen}"
  shows "forceWidgetRepaint (Some r) st =
     st\<lparr> calls := calls st @ [Update r]
            @ (if Q_OS_WINDOWS st \<and> w_windowHandle w
               then [UpdateInternalWindowFrameMargins r] else [])
            @ [Update r] \<rparr>"
  using assms
  by (simp add: forceWidgetRepaint_def update_def Let_def)

text \<open>
  C7, as amended. Let a widget be fixed-size as \<open>isWidgetFixedSize\<close> decides it: it has the
  fixed-size window hint, or equal minimum and maximum sizes that are not empty, or the
  fixed size policy in both directions. Then the repaint forcer performs no resize and the
  size after equals the size before; the position is moved to the position less (10, 10),
  to the position plus (10, 10), both taken in 32-bit arithmetic, and back to the position
  itself, unless the widget is a top-level window that is minimized, maximized or
  fullscreen. For such a window, fixed-size or not, no resize and no move is performed and
  no widget changes.
\<close>

theorem forceWidgetRepaint_fixed_size:
  assumes "widgets st r = Some w"
  shows "(isWidgetFixedSize (Some w) \<longrightarrow>
       size_of (forceWidgetRepaint (Some r) st) r = size_of st r
       \<and> pos_of (forceWidgetRepaint (Some r) st) r = pos_of st r
       \<and> calls (forceWidgetRepaint (Some r) st) =
           calls st @ [Update r]
           @ (if \<not> w_isWindow w \<or>
                 \<not> QFlags_and (w_windowState w) {WindowMinimized, WindowMaximized, WindowFullScreen}
              then [Move r (QPoint_minus (w_pos w) (QPoint 10 10)),
                    Move r (QPoint_plus (w_pos w) (QPoint 10 10)), Move r (w_pos w)]
              else [])
           @ (if Q_OS_WINDOWS st \<and> w_isWindow w \<and> w_windowHandle w
              then [UpdateInternalWindowFrameMargins r] else [])
           @ [Update r])
    \<and> (w_isWindow w
        \<and> QFlags_and (w_windowState w) {WindowMinimized, WindowMaximized, WindowFullScreen} \<longrightarrow>
       widgets (forceWidgetRepaint (Some r) st) = widgets st
       \<and> calls (forceWidgetRepaint (Some r) st) =
           calls st @ [Update r]
           @ (if Q_OS_WINDOWS st \<and> w_windowHandle w
              then [UpdateInternalWindowFrameMargins r] else [])
           @ [Update r])"
proof (intro conjI impI)
  assume f: "isWidgetFixedSize (Some w)"
  note eq = forceWidgetRepaint_fixed [OF assms f]
  show "size_of (forceWidgetRepaint (Some r) st) r = size_of st r"
    using assms by (simp add: eq size_of_def)
  show "pos_of (forceWidgetRepaint (Some r) st) r = pos_of st r"
    using assms by (simp add: eq pos_of_def)
  show "calls (forceWidgetRepaint (Some r) st) =
           calls st @ [Update r]
           @ (if \<not> w_isWindow w \<or>
                 \<not> QFlags_and (w_windowState w) {WindowMinimized, WindowMaximized, WindowFullScreen}
              then [Move r (QPoint_minus (w_pos w) (QPoint 10 10)),
                    Move r (QPoint_plus (w_pos w) (QPoint 10 10)), Move r (w_pos w)]
              else [])
           @ (if Q_OS_WINDOWS st \<and> w_isWindow w \<and> w_windowHandle w
              then [UpdateInternalWindowFrameMargins r] else [])
           @ [Update r]"
    by (simp add: eq)
next
  assume s: "w_isWindow w
        \<and> QFlags_and (w_windowState w) {WindowMinimized, WindowMaximized, WindowFullScreen}"
  then have eq: "forceWidgetRepaint (Some r) st =
     st\<lparr> calls := calls st @ [Update r]
            @ (if Q_OS_WINDOWS st \<and> w_windowHandle w
               then [UpdateInternalWindowFrameMargins r] else [])
            @ [Update r] \<rparr>"
    using forceWidgetRepaint_skipped [OF assms] by simp
  show "widgets (forceWidgetRepaint (Some r) st) = widgets st"
    by (simp add: eq)
  show "calls (forceWidgetRepaint (Some r) st) =
           calls st @ [Update r]
           @ (if Q_OS_WINDOWS st \<and> w_windowHandle w
              then [UpdateInternalWindowFrameMargins r] else [])
           @ [Update r]"
    by (simp add: eq)
qed

theorem forceWidgetRepaint_fixed_size_witness:
  "calls (forceWidgetRepaint (Some 2) example_fixed_child) =
     [Update 2, Move 2 (QPoint (- 5) (- 3)), Move 2 (QPoint 15 17), Move 2 (QPoint 5 7), Update 2]
   \<and> size_of (forceWidgetRepaint (Some 2) example_fixed_child) 2 = QSize 400 30
   \<and> pos_of (forceWidgetRepaint (Some 2) example_fixed_child) 2 = QPoint 5 7
   \<and> calls (forceWidgetRepaint (Some 1) example_maximized) =
       [AddWindow 7 (BoundTo 1 0), SingleShot 0, Update 1, Update 1]
   \<and> calls (forceWidgetRepaint (Some 2) example_far_child) =
       [Update 2, Move 2 (QPoint 2147483630 (- 3)), Move 2 (QPoint (- 2147483646) 17),
        Move 2 (QPoint 2147483640 7), Update 2]
   \<and> pos_of (forceWidgetRepaint (Some 2) example_far_child) 2 = QPoint 2147483640 7"
proof -
  have c: "widgets example_fixed_child 2 =
      Some (example_titleBar\<lparr> w_pos := QPoint 5 7, w_sizePolicy := (Fixed, Fixed) \<rparr>)"
    by (simp add: example_fixed_child_def example_defs)
  have m: "widgets example_maximized 1 =
      Some (example_window\<lparr> w_windowState := {WindowMaximized} \<rparr>)"
    by (simp add: example_defs)
  have d: "widgets example_far_child 2 =
      Some (example_titleBar\<lparr> w_pos := QPoint 2147483640 7, w_sizePolicy := (Fixed, Fixed) \<rparr>)"
    by (simp add: example_far_child_def example_defs)
  have f: "isWidgetFixedSize
      (Some (example_titleBar\<lparr> w_pos := QPoint 5 7, w_sizePolicy := (Fixed, Fixed) \<rparr>))"
    "isWidgetFixedSize
      (Some (example_titleBar\<lparr> w_pos := QPoint 2147483640 7, w_sizePolicy := (Fixed, Fixed) \<rparr>))"
    by (simp_all add: isWidgetFixedSize_def example_defs QSize_isEmpty_def QFlags_and_def)
  show ?thesis
    using forceWidgetRepaint_fixed_size [OF c] forceWidgetRepaint_fixed_size [OF m]
      forceWidgetRepaint_fixed_size [OF d] f
    by (simp add: example_fixed_child_def example_far_child_def example_defs size_of_def
        pos_of_def QPoint_minus_def QPoint_plus_def int32_def QFlags_and_def)
qed

text \<open>
  C7 as first stated lets only a minimized top-level window keep its position. A
  maximized window with the fixed-size hint is fixed-size and not minimized, and the forcer
  does not move it: the two \<open>update()\<close> calls are all it makes.
\<close>

theorem forceWidgetRepaint_maximized_counterexample:
  "isWidgetFixedSize (widgets example_fixed_maximized 1)
   \<and> map_option w_isWindow (widgets example_fixed_maximized 1) = Some True
   \<and> map_option (\<lambda>w. WindowMinimized \<in> w_windowState w) (widgets example_fixed_maximized 1)
       = Some False
   \<and> calls (forceWidgetRepaint (Some 1) example_fixed_maximized) = [Update 1, Update 1]"
  by (simp add: forceWidgetRepaint_def isWidgetFixedSize_def update_def Let_def QFlags_and_def
      example_fixed_maximized_def example_defs)

text \<open>
  Equal minimum and maximum sizes make a widget fixed-size only when they are not empty:
  with both at (0, 0) the forcer does call \<open>resize\<close>, three times.
\<close>

lemma forceWidgetRepaint_empty_fixed_example:
  "map_option (\<lambda>w. w_minimumSize w = w_maximumSize w) (widgets example_empty_fixed 2) = Some True
   \<and> \<not> isWidgetFixedSize (widgets example_empty_fixed 2)
   \<and> calls (forceWidgetRepaint (Some 2) example_empty_fixed) =
       [Update 2, Resize 2 (QSize (- 20) (- 20)), Resize 2 (QSize 20 20), Resize 2 (QSize 0 0),
        Move 2 (QPoint (- 10) (- 10)), Move 2 (QPoint 10 10), Move 2 (QPoint 0 0), Update 2]"
proof -
  let ?w = "example_titleBar\<lparr> w_size := QSize 0 0, w_maximumSize := QSize 0 0 \<rparr>"
  have w: "widgets example_empty_fixed 2 = Some ?w"
    by (simp add: example_empty_fixed_def example_fresh_def)
  have n: "\<not> isWidgetFixedSize (Some ?w)" "\<not> w_isWindow ?w"
    by (simp_all add: isWidgetFixedSize_def QSize_isEmpty_def QFlags_and_def
        example_titleBar_def QWidget_default_def)
  have v: "w_size ?w = QSize 0 0" "w_pos ?w = QPoint 0 0" "w_minimumSize ?w = w_maximumSize ?w"
    by (simp_all add: example_titleBar_def QWidget_default_def)
  have c: "calls example_empty_fixed = []"
    by (simp add: example_empty_fixed_def example_fresh_def)
  show ?thesis
    unfolding forceWidgetRepaint_resizable [OF w n] w
    using n(1)
    by (simp add: v c shrunkBy_def grownBy_def QPoint_minus_def QPoint_plus_def int32_def)
qed

section \<open>Detaching\<close>

lemma detach_eq:
  "detach st =
     (case attachedWindow st of None \<Rightarrow> st
      | Some win \<Rightarrow>
          (case g_framelessWidgetsHelperData st (w_winId win) of None \<Rightarrow> st
           | Some d \<Rightarrow>
               st\<lparr> g_framelessWidgetsHelperData :=
                      (g_framelessWidgetsHelperData st)(w_winId win := None),
                   calls := calls st @ [RemoveWindow (w_winId win)],
                   m_window := None \<rparr>))"
  by (simp add: detach_def emitSignalForAllInstances_def attachedWindow_def QPointer_widget_def
      Let_def split: option.splits)

text \<open>
  What \<open>detach()\<close> does do: with no window attached it changes nothing, and a second call
  in a row changes nothing; with a window attached and in the table, it erases the
  window's entry, calls \<open>removeWindow\<close> once and clears \<open>m_window\<close>.
\<close>

lemma detach_idempotent: "detach (detach st) = detach st"
  by (simp add: detach_eq attachedWindow_def QPointer_widget_def split: option.splits)

lemma detach_unattached: "attachedWindow st = None \<Longrightarrow> detach st = st"
  by (simp add: detach_eq)

lemma detach_attached:
  assumes "attachedWindow st = Some win"
    and "g_framelessWidgetsHelperData st (w_winId win) = Some d"
  shows "g_framelessWidgetsHelperData (detach st) (w_winId win) = None"
    and "calls (detach st) = calls st @ [RemoveWindow (w_winId win)]"
    and "m_window (detach st) = None"
  using assms by (simp_all add: detach_eq)

text \<open>
  The signal is another matter. \<open>detach()\<close> clears \<open>m_window\<close> and then calls
  \<open>emitSignalForAllInstances("windowChanged")\<close>, which returns at once when \<open>m_window\<close> is
  null: no call of \<open>detach()\<close> invokes a signal on any helper instance.
\<close>

lemma detach_invokes_nothing:
  "InvokeMethod instance signal \<in> set (calls (detach st)) \<Longrightarrow>
   InvokeMethod instance signal \<in> set (calls st)"
  by (auto simp add: detach_eq split: option.splits)

text \<open>
  C5. The window of the example owns the helper instance 0 and is attached. \<open>detach()\<close>
  erases its entry, calls \<open>removeWindow(7)\<close> once and clears \<open>m_window\<close>, also when the
  destructor starts it; but the calls it adds hold no \<open>windowChanged\<close> for instance 0,
  which the claim requires.
\<close>

theorem detach_no_windowChanged:
  "map_option w_helpers (attachedWindow example_attached) = Some [0]
   \<and> detach example_attached =
       example_attached\<lparr> g_framelessWidgetsHelperData := Map.empty,
         calls := [AddWindow 7 (BoundTo 1 0), SingleShot 0, RemoveWindow 7],
         m_window := None \<rparr>
   \<and> InvokeMethod 0 ''windowChanged'' \<notin> set (calls (detach example_attached))
   \<and> destructor example_attached =
       example_attached\<lparr> g_framelessWidgetsHelperData := Map.empty,
         calls := [AddWindow 7 (BoundTo 1 0), SingleShot 0, RemoveWindow 7],
         m_window := None, m_destroying := True \<rparr>"
proof -
  let ?w = "example_window\<lparr> w_attributes := {WA_NativeWindow, WA_DontCreateNativeAncestors} \<rparr>"
  have a: "attachedWindow example_attached = Some ?w"
    by (simp add: example_defs lookup_defs)
  have i: "w_winId ?w = 7" "w_helpers ?w = [0]"
    by (simp_all add: example_defs)
  have g: "g_framelessWidgetsHelperData example_attached = [7 \<mapsto> example_data]"
    "calls example_attached = [AddWindow 7 (BoundTo 1 0), SingleShot 0]"
    by (simp_all add: example_attached_def example_fresh_def)
  have d: "detach example_attached =
       example_attached\<lparr> g_framelessWidgetsHelperData := Map.empty,
         calls := [AddWindow 7 (BoundTo 1 0), SingleShot 0, RemoveWindow 7],
         m_window := None \<rparr>"
    by (simp add: detach_eq a i g)
  let ?s = "example_attached\<lparr> m_destroying := True \<rparr>"
  have a': "attachedWindow ?s = Some ?w"
    using a by (simp add: attachedWindow_def QPointer_widget_def split: option.splits)
  have x: "isContentExtendedIntoTitleBar ?s" "insertWindowData ?s = ?s"
    by (simp_all add: isContentExtendedIntoTitleBar_def getWindowData_def windowData_def
        insertWindowData_def a' i g example_data_def)
  have "destructor example_attached = detach ?s"
    by (simp add: destructor_def extendsContentIntoTitleBar_def getWindowData_def x Let_def
        detach_eq a' i g)
  also have "\<dots> = example_attached\<lparr> g_framelessWidgetsHelperData := Map.empty,
         calls := [AddWindow 7 (BoundTo 1 0), SingleShot 0, RemoveWindow 7],
         m_window := None, m_destroying := True \<rparr>"
    by (simp add: detach_eq a' i g)
  finally show ?thesis
    using a by (simp add: d i)
qed

section \<open>Attaching\<close>

lemma attachedWindow_calls [simp]: "attachedWindow (st\<lparr> calls := c \<rparr>) = attachedWindow st"
  by (simp add: attachedWindow_def QPointer_widget_def split: option.splits)

lemma attachedWindow_table [simp]:
  "attachedWindow (st\<lparr> g_framelessWidgetsHelperData := g \<rparr>) = attachedWindow st"
  by (simp add: attachedWindow_def QPointer_widget_def split: option.splits)





lemma findTopLevelWindow_cong:
  assumes "q_parent s' = q_parent s"
    and "\<And>p. map_option w_window (widgets s' p) = map_option w_window (widgets s p)"
  shows "findTopLevelWindow s' = findTopLevelWindow s"
proof (cases "q_parent s")
  case None
  then show ?thesis using assms(1) by (simp add: findTopLevelWindow_def)
next
  case (Some p)
  show ?thesis
  proof (cases "widgets s p")
    case None
    then have "widgets s' p = None" using assms(2) [of p] by simp
    with None Some assms(1) show ?thesis by (simp add: findTopLevelWindow_def)
  next
    case pw: (Some pw)
    then obtain pw' where pw': "widgets s' p = Some pw'" and e: "w_window pw' = w_window pw"
      using assms(2) [of p] by auto
    have "(widgets s' (w_window pw) = None) = (widgets s (w_window pw) = None)"
      using assms(2) [of "w_window pw"] by (metis option.map_disc_iff)
    then show ?thesis
      using Some pw pw' e assms(1)
      by (auto simp add: findTopLevelWindow_def QPointer_data_def split: option.splits)
  qed
qed







section \<open>Extending the content into the title bar\<close>


lemma isContentExtendedIntoTitleBar_calls [simp]:
  "isContentExtendedIntoTitleBar (st\<lparr> calls := c \<rparr>) = isContentExtendedIntoTitleBar st"
  by (simp add: isContentExtendedIntoTitleBar_def getWindowData_def windowData_def
      split: option.splits)

lemma findTopLevelWindow_calls [simp]:
  "findTopLevelWindow (st\<lparr> calls := c \<rparr>) = findTopLevelWindow st"
  by (rule findTopLevelWindow_cong) simp_all










section \<open>Single calls of extendsContentIntoTitleBar\<close>




text \<open>
  A helper that holds the window it resolves while the window's entry is not ready:
  \<open>attach()\<close> returns at its \<open>m_window == window\<close> test, so a call with true inserts at
  most the empty entry and leaves the flag false.
\<close>

lemma isContentExtendedIntoTitleBar_insertWindowData [simp]:
  "isContentExtendedIntoTitleBar (insertWindowData st) = isContentExtendedIntoTitleBar st"
  by (simp add: isContentExtendedIntoTitleBar_def getWindowData_def)

lemma findTopLevelWindow_insertWindowData [simp]:
  "findTopLevelWindow (insertWindowData st) = findTopLevelWindow st"
  by (rule findTopLevelWindow_cong) (simp_all add: insertWindowData_def split: option.splits)


section \<open>Two helper instances on one window\<close>


section \<open>Attaching twice\<close>






section \<open>The flag after a sequence of calls\<close>




end
